theory Spec2Isabelle
  imports Complex_Main "HOL-Library.Sublist"
begin

section \<open>Strings\<close>

text \<open>
  A JavaScript string is a sequence of UTF-16 code units. The embedding uses \<open>string\<close>;
  a \<open>char\<close> stands for the code unit with the same number (U+0000 to U+00FF).
\<close>

definition is_alnum_dot :: "char \<Rightarrow> bool" where
  \<comment> \<open>the character class \<open>[a-zA-Z0-9.]\<close>\<close>
  "is_alnum_dot c =
     (let n = (of_char c :: nat)
      in (97 \<le> n \<and> n \<le> 122) \<or> (65 \<le> n \<and> n \<le> 90) \<or> (48 \<le> n \<and> n \<le> 57) \<or> n = 46)"

text \<open>
  \<open>file.name.replace(/[^a-zA-Z0-9.]+/g, "-")\<close>: the scan goes left to right; a character of
  the class is copied, and a maximal run of characters outside the class (the \<open>+\<close> is
  greedy) is replaced by one \<open>-\<close>.
\<close>

function sanitize_filename :: "string \<Rightarrow> string" where
  "sanitize_filename [] = []"
| "sanitize_filename (c # cs) =
     (if is_alnum_dot c then c # sanitize_filename cs
      else CHR ''-'' # sanitize_filename (dropWhile (\<lambda>d. \<not> is_alnum_dot d) cs))"
  by pat_completeness auto
termination
  by (relation "measure length") (auto simp: length_dropWhile_le less_Suc_eq_le)

text \<open>The replacement the specification describes: character by character.\<close>

definition replace_each :: "string \<Rightarrow> string" where
  "replace_each name = map (\<lambda>c. if is_alnum_dot c then c else CHR ''-'') name"

text \<open>Adjacent dashes merged into one.\<close>

fun merge_dashes :: "string \<Rightarrow> string" where
  "merge_dashes (c # d # cs) =
     (if c = CHR ''-'' \<and> d = CHR ''-'' then merge_dashes (d # cs)
      else c # merge_dashes (d # cs))"
| "merge_dashes cs = cs"


definition is_white_space :: "char \<Rightarrow> bool" where
  \<comment> \<open>the white space and line terminators that \<open>String.prototype.trim\<close> strips
     (tab, LF, VT, FF, CR, space, no-break space)\<close>
  "is_white_space c = ((of_char c :: nat) \<in> {9, 10, 11, 12, 13, 32, 160})"

definition trim :: "string \<Rightarrow> string" where
  "trim s = rev (dropWhile is_white_space (rev (dropWhile is_white_space s)))"

section \<open>Dates and their formatting\<close>

datatype error = RangeError

text \<open>
  The host: \<open>getTimezoneOffset\<close> in minutes (UTC minus local time, taken as the same at
  every instant rendered) and what \<open>format\<close> of date-fns gives for a pattern other than
  the renderer's own two, at a time value; it throws a \<open>RangeError\<close> on a pattern it
  does not accept.
\<close>

record host =
  timezoneOffset :: int
  other_pattern :: "string \<Rightarrow> int \<Rightarrow> error + string"

text \<open>
  \<open>new Date(v)\<close>: the time value in milliseconds, truncated towards zero; beyond
  \<open>8.64e15\<close> the date is invalid (\<open>None\<close>). Numbers are taken as exact rationals.
\<close>

definition Date_new :: "rat \<Rightarrow> int option" where
  "Date_new v =
     (if \<bar>v\<bar> > 8640000000000000 then None
      else Some (if 0 \<le> v then \<lfloor>v\<rfloor> else \<lceil>v\<rceil>))"

definition getTime_plus_offset :: "host \<Rightarrow> int option \<Rightarrow> int option" where
  \<comment> \<open>\<open>new Date(d.getTime() + d.getTimezoneOffset() * 60000)\<close>\<close>
  "getTime_plus_offset h d =
     (case d of None \<Rightarrow> None
      | Some t \<Rightarrow> Date_new (of_int (t + timezoneOffset h * 60000)))"

definition two_digits :: "int \<Rightarrow> string" where
  "two_digits n = [char_of (48 + n div 10), char_of (48 + n mod 10)]"

text \<open>
  \<open>format(date, pattern)\<close> of date-fns: a \<open>RangeError\<close> on an invalid date; \<open>mm\<close>, \<open>ss\<close>
  and \<open>HH\<close> are the minute, the second and the hour (0 to 23) of the local time.
\<close>

definition format :: "host \<Rightarrow> int option \<Rightarrow> string \<Rightarrow> error + string" where
  "format h d pattern =
     (case d of None \<Rightarrow> Inl RangeError
      | Some t \<Rightarrow>
          (let l = t - timezoneOffset h * 60000;
               mm = two_digits (l div 60000 mod 60);
               ss = two_digits (l div 1000 mod 60);
               HH = two_digits (l div 3600000 mod 24)
           in if pattern = ''mm:ss'' then Inr (mm @ '':'' @ ss)
              else if pattern = ''HH:mm:ss'' then Inr (HH @ '':'' @ mm @ '':'' @ ss)
              else other_pattern h pattern t))"

section \<open>Segment renderer\<close>

record segment =
  seg_start :: rat
  seg_end :: rat
  seg_text :: string

definition maxDuration :: "segment list \<Rightarrow> rat" where
  "maxDuration segments = foldl (\<lambda>m segment. max m (seg_end segment)) 0 segments"

definition autoFormat :: "segment list \<Rightarrow> string" where
  "autoFormat segments = (if maxDuration segments < 3600 then ''mm:ss'' else ''HH:mm:ss'')"

definition formatToUse :: "segment list \<Rightarrow> string \<Rightarrow> string" where
  "formatToUse segments timestampFormat =
     (if timestampFormat = ''auto'' then autoFormat segments else timestampFormat)"

definition segment_string :: "host \<Rightarrow> string \<Rightarrow> segment \<Rightarrow> error + string" where
  "segment_string h pattern segment =
     (let start = getTime_plus_offset h (Date_new (seg_start segment * 1000));
          end' = getTime_plus_offset h (Date_new (seg_end segment * 1000))
      in case format h start pattern of
           Inl e \<Rightarrow> Inl e
         | Inr start_formatted \<Rightarrow>
             (case format h end' pattern of
                Inl e \<Rightarrow> Inl e
              | Inr end_formatted \<Rightarrow>
                  Inr (start_formatted @ '' - '' @ end_formatted @ '': '' @
                       trim (seg_text segment) @ [CHR 0x0A])))"

text \<open>The \<open>reduce\<close> of \<open>renderSegments\<close>, with the transcription built so far.\<close>

fun renderSegments_from :: "host \<Rightarrow> string \<Rightarrow> string \<Rightarrow> segment list \<Rightarrow> error + string" where
  "renderSegments_from h pattern transcription [] = Inr transcription"
| "renderSegments_from h pattern transcription (segment # segments) =
     (case segment_string h pattern segment of
        Inl e \<Rightarrow> Inl e
      | Inr line \<Rightarrow> renderSegments_from h pattern (transcription @ line) segments)"

definition renderSegments :: "host \<Rightarrow> string \<Rightarrow> segment list \<Rightarrow> error + string" where
  "renderSegments h pattern segments = renderSegments_from h pattern [] segments"

text \<open>
  \<open>groupedSegments\<close> is a plain object keyed by \<open>intervalStart\<close>. It is kept as the list of
  its properties in creation order; the key is the number itself (distinct numbers have
  distinct property names).
\<close>

record group =
  g_start :: rat
  g_end :: rat
  g_texts :: "string list"

definition intervalStart :: "rat \<Rightarrow> segment \<Rightarrow> rat" where
  "intervalStart interval segment = of_int \<lfloor>seg_start segment / interval\<rfloor> * interval"

definition add_segment :: "rat \<Rightarrow> (rat \<times> group) list \<Rightarrow> segment \<Rightarrow> (rat \<times> group) list" where
  "add_segment interval groupedSegments segment =
     (let k = intervalStart interval segment
      in case map_of groupedSegments k of
           None \<Rightarrow>
             groupedSegments @
               [(k, \<lparr>g_start = seg_start segment, g_end = seg_end segment,
                     g_texts = [seg_text segment]\<rparr>)]
         | Some g \<Rightarrow>
             map (\<lambda>(k', g'). if k' = k
                    then (k', g'\<lparr>g_end := max (g_end g') (seg_end segment),
                                 g_texts := g_texts g' @ [seg_text segment]\<rparr>)
                    else (k', g')) groupedSegments)"

definition groupedSegments :: "rat \<Rightarrow> segment list \<Rightarrow> (rat \<times> group) list" where
  "groupedSegments interval segments = foldl (add_segment interval) [] segments"

text \<open>
  \<open>Object.values\<close> follows the property order of the language: the keys that are array
  indices (integers from 0 to \<open>2^32 - 2\<close>) first, in ascending numeric order, then the
  other keys in creation order.
\<close>

definition is_array_index :: "rat \<Rightarrow> bool" where
  "is_array_index k = (k = of_int \<lfloor>k\<rfloor> \<and> 0 \<le> k \<and> k \<le> 4294967294)"

definition Object_entries :: "(rat \<times> 'v) list \<Rightarrow> (rat \<times> 'v) list" where
  "Object_entries obj =
     sort_key fst (filter (\<lambda>p. is_array_index (fst p)) obj) @
     filter (\<lambda>p. \<not> is_array_index (fst p)) obj"

definition Object_values :: "(rat \<times> 'v) list \<Rightarrow> 'v list" where
  "Object_values obj = map snd (Object_entries obj)"

definition bucketedSegments :: "rat \<Rightarrow> segment list \<Rightarrow> segment list" where
  "bucketedSegments interval segments =
     map (\<lambda>group. \<lparr>seg_start = g_start group, seg_end = g_end group,
                    seg_text = trim (concat (g_texts group))\<rparr>)
       (Object_values (groupedSegments interval segments))"

definition segmentsToTimestampedString ::
    "host \<Rightarrow> segment list \<Rightarrow> string \<Rightarrow> rat \<Rightarrow> error + string" where
  "segmentsToTimestampedString h segments timestampFormat interval =
     (let pattern = formatToUse segments timestampFormat
      in if interval > 0 then renderSegments h pattern (bucketedSegments interval segments)
         else renderSegments h pattern segments)"

text \<open>
  What the renderer shows for a number of seconds: the elapsed milliseconds (the fraction
  of a millisecond dropped), as minutes and seconds, or with the hour in front.
\<close>

definition elapsed_ms :: "rat \<Rightarrow> int" where
  "elapsed_ms x = (if 0 \<le> x then \<lfloor>x * 1000\<rfloor> else \<lceil>x * 1000\<rceil>)"

definition mm_ss :: "int \<Rightarrow> string" where
  "mm_ss t = two_digits (t div 60000 mod 60) @ '':'' @ two_digits (t div 1000 mod 60)"

definition HH_mm_ss :: "int \<Rightarrow> string" where
  "HH_mm_ss t = two_digits (t div 3600000 mod 24) @ '':'' @ mm_ss t"

text \<open>A number of seconds that is a valid date, also once shifted by the timezone offset.\<close>

definition in_date_range :: "host \<Rightarrow> rat \<Rightarrow> bool" where
  "in_date_range h x =
     (\<bar>x * 1000\<bar> \<le> 8640000000000000 \<and>
      \<bar>elapsed_ms x + timezoneOffset h * 60000\<bar> \<le> 8640000000000000)"








section \<open>Result formatter\<close>

text \<open>
  The settings the core reads, and the transcript resource of the provider: a field that
  may be missing is an \<open>option\<close>; the identifier is kept as the text it is printed as.
\<close>

record TranscriptionSettings =
  timestamps :: bool
  timestampFormat :: string
  embedSummary :: bool
  embedOutline :: bool
  embedKeywords :: bool
  embedAdditionalFunctionality :: bool

record TranscriptSchema =
  t_id :: string
  t_name :: string
  t_status :: "string option"
  t_text :: "string option"
  t_text_segments :: "segment list"
  t_summary :: "string option"
  t_heading_segments :: "segment list"
  t_keywords :: "string list"

fun Array_join :: "string \<Rightarrow> string list \<Rightarrow> string" where
  "Array_join sep [] = []"
| "Array_join sep [x] = x"
| "Array_join sep (x # y # ys) = x @ sep @ Array_join sep (y # ys)"

definition ensure_newline :: "string \<Rightarrow> string" where
  \<comment> \<open>\<open>if (transcript_text.slice(-1) !== "\n") transcript_text += "\n"\<close>\<close>
  "ensure_newline transcript_text =
     (if transcript_text = [] \<or> last transcript_text \<noteq> CHR 0x0A
      then transcript_text @ [CHR 0x0A] else transcript_text)"

definition insufficient :: string where
  "insufficient = ''Insufficient information for a summary.''"

definition formatSwiftinkResults ::
    "host \<Rightarrow> TranscriptionSettings \<Rightarrow> TranscriptSchema \<Rightarrow> error + string" where
  "formatSwiftinkResults h settings transcript =
     (case (if timestamps settings
            then segmentsToTimestampedString h (t_text_segments transcript)
                   (timestampFormat settings) 0
            else Inr (case t_text transcript of None \<Rightarrow> [] | Some t \<Rightarrow> t)) of
        Inl e \<Rightarrow> Inl e
      | Inr body \<Rightarrow>
          (let text1 = ensure_newline (''## Transcript'' @ [CHR 0x0A] @ body);
               text2 = ensure_newline
                 (case t_summary transcript of
                    None \<Rightarrow> text1
                  | Some summary \<Rightarrow>
                      if embedSummary settings \<and> summary \<noteq> [] \<and> summary \<noteq> insufficient
                      then text1 @ ''## Summary'' @ [CHR 0x0A] @ summary else text1)
           in case (if embedOutline settings \<and> length (t_heading_segments transcript) > 0
                    then (case segmentsToTimestampedString h (t_heading_segments transcript)
                                 (timestampFormat settings) 0 of
                            Inl e \<Rightarrow> Inl e
                          | Inr outline \<Rightarrow> Inr (text2 @ ''## Outline'' @ [CHR 0x0A] @ outline))
                    else Inr text2) of
                Inl e \<Rightarrow> Inl e
              | Inr text2' \<Rightarrow>
                  (let text3 = ensure_newline text2';
                       text4 = ensure_newline
                         (if embedKeywords settings \<and> length (t_keywords transcript) > 0
                          then text3 @ ''## Keywords'' @ [CHR 0x0A] @
                               Array_join '', '' (t_keywords transcript)
                          else text3)
                   in Inr (if embedAdditionalFunctionality settings
                           then text4 @ ''[...](obsidian://swiftink_transcript_functions?id='' @
                                t_id transcript @ '')''
                           else text4))))"

text \<open>The sections of the specification, each with the condition it is included under.\<close>

definition Transcript_body ::
    "host \<Rightarrow> TranscriptionSettings \<Rightarrow> TranscriptSchema \<Rightarrow> error + string" where
  "Transcript_body h settings transcript =
     (if timestamps settings
      then segmentsToTimestampedString h (t_text_segments transcript) (timestampFormat settings) 0
      else Inr (case t_text transcript of None \<Rightarrow> [] | Some t \<Rightarrow> t))"

definition Summary_included :: "TranscriptionSettings \<Rightarrow> TranscriptSchema \<Rightarrow> bool" where
  "Summary_included settings transcript =
     (embedSummary settings \<and>
      (case t_summary transcript of None \<Rightarrow> False | Some s \<Rightarrow> s \<noteq> [] \<and> s \<noteq> insufficient))"

definition Summary_section :: "TranscriptionSettings \<Rightarrow> TranscriptSchema \<Rightarrow> string" where
  "Summary_section settings transcript =
     (case t_summary transcript of
        None \<Rightarrow> []
      | Some summary \<Rightarrow>
          if Summary_included settings transcript then ''## Summary'' @ [CHR 0x0A] @ summary
          else [])"

definition Outline_section ::
    "host \<Rightarrow> TranscriptionSettings \<Rightarrow> TranscriptSchema \<Rightarrow> error + string" where
  "Outline_section h settings transcript =
     (if embedOutline settings \<and> t_heading_segments transcript \<noteq> []
      then (case segmentsToTimestampedString h (t_heading_segments transcript)
                   (timestampFormat settings) 0 of
              Inl e \<Rightarrow> Inl e
            | Inr outline \<Rightarrow> Inr (''## Outline'' @ [CHR 0x0A] @ outline))
      else Inr [])"

definition Keywords_section :: "TranscriptionSettings \<Rightarrow> TranscriptSchema \<Rightarrow> string" where
  "Keywords_section settings transcript =
     (if embedKeywords settings \<and> t_keywords transcript \<noteq> []
      then ''## Keywords'' @ [CHR 0x0A] @ Array_join '', '' (t_keywords transcript) else [])"

definition link :: "TranscriptionSettings \<Rightarrow> TranscriptSchema \<Rightarrow> string" where
  "link settings transcript =
     (if embedAdditionalFunctionality settings
      then ''[...](obsidian://swiftink_transcript_functions?id='' @ t_id transcript @ '')''
      else [])"

definition ends_in_newline :: "string \<Rightarrow> bool" where
  "ends_in_newline s = (s \<noteq> [] \<and> last s = CHR 0x0A)"

definition ends_in_one_newline :: "string \<Rightarrow> bool" where
  "ends_in_one_newline s = (ends_in_newline s \<and> \<not> ends_in_newline (butlast s))"

section \<open>Promises\<close>

text \<open>
  What a promise is rejected with: a message, a \<open>Notice\<close> object, or the error a request
  threw. A promise settles once: resolving or rejecting a settled promise changes nothing.
\<close>

datatype rejection = Message string | NoticeObject string | ErrorObject string

datatype 'a promise = Pending | Resolved 'a | Rejected rejection

definition settle :: "'a promise \<Rightarrow> 'a promise \<Rightarrow> 'a promise" where
  "settle p v = (case p of Pending \<Rightarrow> v | _ \<Rightarrow> p)"

section \<open>Backend B: the poll loop\<close>

definition MAX_TRIES :: nat where
  "MAX_TRIES = 100"

definition completed_statuses :: "TranscriptionSettings \<Rightarrow> string list" where
  "completed_statuses settings =
     (if embedSummary settings \<or> embedOutline settings \<or> embedKeywords settings
      then [''complete''] else [''transcribed'', ''complete''])"

text \<open>
  The state of the loop: the counter \<open>tries\<close>, whether the timer \<open>poll\<close> is still set, and
  the promise returned. The answer to one poll is the transcript, or \<open>requestUrl\<close> throws.
\<close>

record poll_state =
  tries :: nat
  polling :: bool
  outcome :: "string promise"

datatype poll_response = RequestThrows | Transcript TranscriptSchema

text \<open>
  One firing of the timer, its request answered before the next firing. An exception
  (from the request, or from the formatter inside \<open>resolve(...)\<close>) ends the callback where
  it is thrown: \<open>tries++\<close> is not reached, and the promise is not touched.
\<close>

definition poll_callback ::
    "host \<Rightarrow> TranscriptionSettings \<Rightarrow> poll_state \<Rightarrow> poll_response \<Rightarrow> poll_state" where
  "poll_callback h settings st response =
     (if \<not> polling st then st
      else case response of
        RequestThrows \<Rightarrow> st
      | Transcript transcript \<Rightarrow>
          (case t_status transcript of
             None \<Rightarrow>
               if tries st > MAX_TRIES
               then st\<lparr>polling := False,
                       outcome := settle (outcome st)
                         (Rejected (Message ''Swiftink took too long to transcribe the file'')),
                       tries := tries st + 1\<rparr>
               else st\<lparr>tries := tries st + 1\<rparr>
           | Some status \<Rightarrow>
               if status \<noteq> [] \<and> status \<in> set (completed_statuses settings)
               then (case formatSwiftinkResults h settings transcript of
                       Inl e \<Rightarrow> st\<lparr>polling := False\<rparr>
                     | Inr text \<Rightarrow>
                         st\<lparr>polling := False,
                            outcome := settle (outcome st) (Resolved text),
                            tries := tries st + 1\<rparr>)
               else if status = ''failed''
               then st\<lparr>polling := False,
                       outcome := settle (outcome st)
                         (Rejected (Message ''Swiftink failed to transcribe the file'')),
                       tries := tries st + 1\<rparr>
               else if status = ''validation_failed''
               then st\<lparr>polling := False,
                       outcome := settle (outcome st)
                         (Rejected (Message ''Swiftink has detected an invalid file'')),
                       tries := tries st + 1\<rparr>
               else if tries st > MAX_TRIES
               then st\<lparr>polling := False,
                       outcome := settle (outcome st)
                         (Rejected (Message ''Swiftink took too long to transcribe the file'')),
                       tries := tries st + 1\<rparr>
               else st\<lparr>tries := tries st + 1\<rparr>))"

definition poll_loop ::
    "host \<Rightarrow> TranscriptionSettings \<Rightarrow> poll_response list \<Rightarrow> poll_state" where
  "poll_loop h settings responses =
     foldl (poll_callback h settings) \<lparr>tries = 0, polling = True, outcome = Pending\<rparr> responses"

text \<open>A poll that ends nothing by its status: no exception, and a status that is neither
  completed nor failed.\<close>

definition non_terminal :: "TranscriptionSettings \<Rightarrow> poll_response \<Rightarrow> bool" where
  "non_terminal settings response =
     (case response of
        RequestThrows \<Rightarrow> False
      | Transcript transcript \<Rightarrow>
          (case t_status transcript of
             None \<Rightarrow> True
           | Some status \<Rightarrow>
               status \<notin> set (completed_statuses settings) \<and> status \<noteq> ''failed'' \<and>
               status \<noteq> ''validation_failed''))"

section \<open>Backend B\<close>

text \<open>
  What the outside does in one run: the session found, the upload (it succeeds; or it
  fails after its retries, which the library reports to \<open>onError\<close>, not set here, so
  the upload promise is never settled; or \<open>start\<close> throws at once, inside the promise's
  executor), the create request, and the answers to the polls.
\<close>

datatype upload_result = UploadSucceeds | UploadFails | UploadThrows

datatype create_result = CreateThrows string | Created TranscriptSchema

record swiftink_run =
  session :: "(string \<times> string) option"
  upload :: upload_result
  create :: create_result
  polls :: "poll_response list"

definition getTranscriptionSwiftink ::
    "host \<Rightarrow> TranscriptionSettings \<Rightarrow> string \<Rightarrow> swiftink_run \<Rightarrow> string promise" where
  "getTranscriptionSwiftink h settings file_name run =
     (case session run of
        None \<Rightarrow> Rejected (Message ''No user session found. Please log in and try again.'')
      | Some (token, user_id) \<Rightarrow>
          (let filename = sanitize_filename file_name
           in case upload run of
                UploadFails \<Rightarrow> Pending
              | UploadThrows \<Rightarrow>
                  Rejected (NoticeObject (''Failed to upload '' @ filename @ '' to Swiftink''))
              | UploadSucceeds \<Rightarrow>
                  (case create run of
                     CreateThrows e \<Rightarrow> Rejected (ErrorObject e)
                   | Created transcript \<Rightarrow> outcome (poll_loop h settings (polls run)))))"

section \<open>Backend A\<close>

record create_json =
  c_code :: int
  c_taskId :: "string option"
  c_msg :: string

text \<open>The \<open>result\<close> of a query, parsed: the texts of its sentences; \<open>None\<close> when it does
  not parse.\<close>

record query_json =
  q_code :: int
  q_msg :: string
  q_result :: "string list option"

text \<open>An event of a request: its \<open>error\<close>, or its response with the body parsed as JSON
  (\<open>None\<close> when \<open>JSON.parse\<close> throws).\<close>

datatype 'a response_event = RequestError string | ResponseEnd "'a option"

record whisper_state =
  w_promise :: "string promise"
  w_interval :: bool
  w_queries :: "string list"

definition query_path :: "string option \<Rightarrow> string" where
  "query_path taskId =
     ''/asr/file/v1/query?taskId='' @ (case taskId of None \<Rightarrow> ''undefined'' | Some t \<Rightarrow> t) @
     ''&resultType=1''"

text \<open>One firing of the query timer: the request is issued, then its event is handled.\<close>

definition query_tick ::
    "string option \<Rightarrow> whisper_state \<Rightarrow> query_json response_event \<Rightarrow> whisper_state" where
  "query_tick taskId st event =
     (if \<not> w_interval st then st
      else
        (let st1 = st\<lparr>w_queries := w_queries st @ [query_path taskId]\<rparr>
         in case event of
              RequestError e \<Rightarrow>
                st1\<lparr>w_promise := settle (w_promise st1) (Rejected (ErrorObject e)),
                    w_interval := False\<rparr>
            | ResponseEnd None \<Rightarrow> st1
            | ResponseEnd (Some responseJSON) \<Rightarrow>
                if q_code responseJSON = 11000
                then (case q_result responseJSON of
                        None \<Rightarrow> st1
                      | Some sentences \<Rightarrow>
                          st1\<lparr>w_promise := settle (w_promise st1)
                                 (Resolved (Array_join '' '' sentences)),
                              w_interval := False\<rparr>)
                else if q_code responseJSON = 11001 then st1
                else st1\<lparr>w_promise := settle (w_promise st1)
                           (Rejected (Message (q_msg responseJSON))),
                         w_interval := False\<rparr>))"

definition getTranscriptionWhisperASR ::
    "create_json response_event \<Rightarrow> query_json response_event list \<Rightarrow> whisper_state" where
  "getTranscriptionWhisperASR create_event query_events =
     (let st = \<lparr>w_promise = Pending, w_interval = False, w_queries = []\<rparr>
      in case create_event of
           RequestError e \<Rightarrow> st
         | ResponseEnd None \<Rightarrow> st
         | ResponseEnd (Some responseJSON) \<Rightarrow>
             if c_code responseJSON = 10000
             then foldl (query_tick (c_taskId responseJSON)) (st\<lparr>w_interval := True\<rparr>)
                    query_events
             else st\<lparr>w_promise := settle (w_promise st) (Rejected (Message (c_msg responseJSON)))\<rparr>)"

section \<open>Object name sanitisation\<close>

lemma dash_not_alnum_dot: "\<not> is_alnum_dot (CHR ''-'')"
  by (simp add: is_alnum_dot_def)

lemma merge_dashes_run:
  "merge_dashes (CHR ''-'' # replace_each cs) =
   CHR ''-'' # merge_dashes (replace_each (dropWhile (\<lambda>d. \<not> is_alnum_dot d) cs))"
proof (induction cs)
  case Nil
  show ?case by (simp add: replace_each_def)
next
  case (Cons d ds)
  show ?case
  proof (cases "is_alnum_dot d")
    case True
    then have "d \<noteq> CHR ''-''" using dash_not_alnum_dot by auto
    with True show ?thesis by (simp add: replace_each_def)
  next
    case False
    with Cons show ?thesis by (simp add: replace_each_def)
  qed
qed

lemma merge_dashes_keep:
  "is_alnum_dot c \<Longrightarrow> merge_dashes (c # replace_each cs) = c # merge_dashes (replace_each cs)"
proof (cases cs)
  case Nil
  then show ?thesis by (simp add: replace_each_def)
next
  case (Cons d ds)
  assume "is_alnum_dot c"
  then have "c \<noteq> CHR ''-''" using dash_not_alnum_dot by auto
  with Cons show ?thesis by (simp add: replace_each_def)
qed

lemma sanitize_filename_merge:
  "sanitize_filename name = merge_dashes (replace_each name)"
proof (induction name rule: sanitize_filename.induct)
  case 1
  show ?case by (simp add: replace_each_def)
next
  case (2 c cs)
  show ?case
  proof (cases "is_alnum_dot c")
    case True
    with 2 have "sanitize_filename (c # cs) = c # merge_dashes (replace_each cs)" by simp
    also have "\<dots> = merge_dashes (c # replace_each cs)"
      using True by (simp add: merge_dashes_keep)
    also have "c # replace_each cs = replace_each (c # cs)"
      using True by (simp add: replace_each_def)
    finally show ?thesis .
  next
    case False
    with 2 have "sanitize_filename (c # cs) =
        CHR ''-'' # merge_dashes (replace_each (dropWhile (\<lambda>d. \<not> is_alnum_dot d) cs))"
      by simp
    also have "\<dots> = merge_dashes (CHR ''-'' # replace_each cs)"
      by (simp add: merge_dashes_run)
    also have "CHR ''-'' # replace_each cs = replace_each (c # cs)"
      using False by (simp add: replace_each_def)
    finally show ?thesis .
  qed
qed

lemma sanitize_filename_filter:
  "filter is_alnum_dot (sanitize_filename name) = filter is_alnum_dot name"
proof (induction name rule: sanitize_filename.induct)
  case 1
  show ?case by simp
next
  case (2 c cs)
  have drop: "filter is_alnum_dot (dropWhile (\<lambda>d. \<not> is_alnum_dot d) cs) = filter is_alnum_dot cs"
    by (induction cs) auto
  show ?case
  proof (cases "is_alnum_dot c")
    case True
    with 2 show ?thesis by simp
  next
    case False
    with 2 drop show ?thesis by (simp add: dash_not_alnum_dot)
  qed
qed

text \<open>
  C10, as stated: every character outside \<open>[A-Za-z0-9.]\<close> has its own \<open>-\<close> in the object
  name. It fails on a name with two adjacent characters outside the class: \<open>a  b\<close> (two
  spaces) becomes \<open>a-b\<close>, not \<open>a--b\<close>.
\<close>

theorem C10_sanitize_counterexample:
  "sanitize_filename ''a  b'' = ''a-b'' \<and> replace_each ''a  b'' = ''a--b'' \<and>
   sanitize_filename ''a  b'' \<noteq> replace_each ''a  b''"
  by (simp add: replace_each_def is_alnum_dot_def)

text \<open>
  C10, amended: the object name is the input with every maximal run of characters outside
  \<open>[A-Za-z0-9.]\<close> replaced by a single \<open>-\<close>: it is the character-by-character replacement
  with adjacent dashes merged, and the letters, digits and dots are kept, in order.
\<close>

theorem C10_sanitize_runs:
  "sanitize_filename name = merge_dashes (replace_each name) \<and>
   filter is_alnum_dot (sanitize_filename name) = filter is_alnum_dot name"
  by (simp add: sanitize_filename_merge [symmetric] sanitize_filename_filter)

section \<open>Format selection and rendering without bucketing\<close>







lemma shifted_date:
  assumes "in_date_range h x"
  shows "getTime_plus_offset h (Date_new (x * 1000)) =
         Some (elapsed_ms x + timezoneOffset h * 60000)"
proof -
  have d: "Date_new (x * 1000) = Some (elapsed_ms x)"
    using assms by (simp add: Date_new_def in_date_range_def elapsed_ms_def zero_le_mult_iff)
  have "\<bar>(of_int (elapsed_ms x + timezoneOffset h * 60000) :: rat)\<bar> \<le> 8640000000000000"
  proof -
    have "\<bar>(of_int (elapsed_ms x + timezoneOffset h * 60000) :: rat)\<bar> =
          of_int \<bar>elapsed_ms x + timezoneOffset h * 60000\<bar>" by simp
    also have "\<dots> \<le> of_int 8640000000000000"
      using assms unfolding in_date_range_def of_int_le_iff by simp
    finally show ?thesis by simp
  qed
  then have "Date_new (of_int (elapsed_ms x + timezoneOffset h * 60000)) =
        Some (elapsed_ms x + timezoneOffset h * 60000)"
    unfolding Date_new_def by (simp del: of_int_add of_int_mult)
  with d show ?thesis by (simp add: getTime_plus_offset_def)
qed


lemma format_HH_mm_ss:
  "in_date_range h x \<Longrightarrow>
   format h (getTime_plus_offset h (Date_new (x * 1000))) ''HH:mm:ss'' =
     Inr (HH_mm_ss (elapsed_ms x))"
  by (simp add: shifted_date format_def mm_ss_def HH_mm_ss_def Let_def)


lemma segment_string_HH_mm_ss:
  "in_date_range h (seg_start s) \<Longrightarrow> in_date_range h (seg_end s) \<Longrightarrow>
   segment_string h ''HH:mm:ss'' s =
     Inr (HH_mm_ss (elapsed_ms (seg_start s)) @ '' - '' @ HH_mm_ss (elapsed_ms (seg_end s)) @
          '': '' @ trim (seg_text s) @ [CHR 0x0A])"
  by (simp add: segment_string_def format_HH_mm_ss)









section \<open>Bucketing\<close>





















section \<open>The sections of the formatted result\<close>

lemma ensure_newline_ends: "ends_in_newline (ensure_newline t)"
  by (simp add: ensure_newline_def ends_in_newline_def)

lemma ensure_newline_id: "ends_in_newline t \<Longrightarrow> ensure_newline t = t"
  by (simp add: ensure_newline_def ends_in_newline_def)

lemma ensure_newline_append: "\<not> ends_in_newline t \<Longrightarrow> ensure_newline t = t @ [CHR 0x0A]"
  by (auto simp: ensure_newline_def ends_in_newline_def)

lemma ensure_newline_one:
  "\<not> ends_in_newline t \<Longrightarrow> ends_in_one_newline (ensure_newline t)"
  by (simp add: ensure_newline_append ends_in_one_newline_def) (simp add: ends_in_newline_def)

lemma summary_step:
  "(case t_summary transcript of
      None \<Rightarrow> text1
    | Some summary \<Rightarrow>
        if embedSummary settings \<and> summary \<noteq> [] \<and> summary \<noteq> insufficient
        then text1 @ ''## Summary'' @ [CHR 0x0A] @ summary else text1) =
   text1 @ Summary_section settings transcript"
  by (simp add: Summary_section_def Summary_included_def split: option.splits)

lemma outline_step:
  "(if embedOutline settings \<and> length (t_heading_segments transcript) > 0
    then (case segmentsToTimestampedString h (t_heading_segments transcript)
                 (timestampFormat settings) 0 of
            Inl e \<Rightarrow> Inl e
          | Inr outline \<Rightarrow> Inr (text2 @ ''## Outline'' @ [CHR 0x0A] @ outline))
    else Inr text2) =
   (case Outline_section h settings transcript of
      Inl e \<Rightarrow> Inl e
    | Inr outline \<Rightarrow> Inr (text2 @ outline))"
  by (simp add: Outline_section_def split: sum.splits)

lemma keywords_step:
  "(if embedKeywords settings \<and> length (t_keywords transcript) > 0
    then text3 @ ''## Keywords'' @ [CHR 0x0A] @ Array_join '', '' (t_keywords transcript)
    else text3) =
   text3 @ Keywords_section settings transcript"
  by (simp add: Keywords_section_def)

lemma link_step:
  "(if embedAdditionalFunctionality settings
    then text4 @ ''[...](obsidian://swiftink_transcript_functions?id='' @ t_id transcript @ '')''
    else text4) =
   text4 @ link settings transcript"
  by (simp add: link_def)

lemma formatSwiftinkResults_sections:
  "formatSwiftinkResults h settings transcript =
     (case Transcript_body h settings transcript of
        Inl e \<Rightarrow> Inl e
      | Inr body \<Rightarrow>
          (case Outline_section h settings transcript of
             Inl e \<Rightarrow> Inl e
           | Inr outline \<Rightarrow>
               Inr (ensure_newline
                     (ensure_newline
                       (ensure_newline
                         (ensure_newline (''## Transcript'' @ [CHR 0x0A] @ body) @
                          Summary_section settings transcript) @
                        outline) @
                      Keywords_section settings transcript) @
                    link settings transcript)))"
  unfolding formatSwiftinkResults_def Let_def summary_step outline_step keywords_step link_step
    Transcript_body_def [symmetric]
  by (simp split: sum.splits)

lemma ensure_newline_suffix: "\<exists>r. ensure_newline t = t @ r"
  by (simp add: ensure_newline_def)

lemma prefix_ensure_newline: "prefix t (ensure_newline (t @ s))"
  by (simp add: ensure_newline_def)

lemma sections_without_summary:
  "Transcript_body h settings (transcript\<lparr>t_summary := None\<rparr>) = Transcript_body h settings transcript"
  "Outline_section h settings (transcript\<lparr>t_summary := None\<rparr>) = Outline_section h settings transcript"
  "Keywords_section settings (transcript\<lparr>t_summary := None\<rparr>) = Keywords_section settings transcript"
  "link settings (transcript\<lparr>t_summary := None\<rparr>) = link settings transcript"
  "Summary_section settings (transcript\<lparr>t_summary := None\<rparr>) = []"
  by (simp_all add: Transcript_body_def Outline_section_def Keywords_section_def link_def
      Summary_section_def)

lemma format_without_summary:
  "Summary_section settings transcript = [] \<Longrightarrow>
   formatSwiftinkResults h settings transcript =
   formatSwiftinkResults h settings (transcript\<lparr>t_summary := None\<rparr>)"
  by (simp add: formatSwiftinkResults_sections sections_without_summary cong: sum.case_cong)

lemma Summary_section_empty_iff:
  "Summary_section settings transcript \<noteq> [] \<longleftrightarrow>
   embedSummary settings \<and> (\<exists>s. t_summary transcript = Some s \<and> s \<noteq> [] \<and> s \<noteq> insufficient)"
  by (auto simp: Summary_section_def Summary_included_def split: option.splits)

lemma format_with_summary:
  assumes "embedSummary settings" "t_summary transcript = Some s" "s \<noteq> []" "s \<noteq> insufficient"
    and out: "formatSwiftinkResults h settings transcript = Inr out"
  shows "\<exists>body rest. Transcript_body h settings transcript = Inr body \<and>
     out = ensure_newline (''## Transcript'' @ [CHR 0x0A] @ body) @
           ''## Summary'' @ [CHR 0x0A] @ s @ rest"
proof -
  have S: "Summary_section settings transcript = ''## Summary'' @ [CHR 0x0A] @ s"
    using assms by (simp add: Summary_section_def Summary_included_def)
  from out obtain body outline where
    b: "Transcript_body h settings transcript = Inr body" and
    o: "Outline_section h settings transcript = Inr outline"
    by (auto simp: formatSwiftinkResults_sections split: sum.splits)
  let ?a = "ensure_newline (''## Transcript'' @ [CHR 0x0A] @ body)"
  obtain r1 where r1: "ensure_newline (?a @ Summary_section settings transcript) =
      (?a @ Summary_section settings transcript) @ r1"
    using ensure_newline_suffix by blast
  obtain r2 where r2: "ensure_newline (((?a @ Summary_section settings transcript) @ r1) @ outline) =
      (((?a @ Summary_section settings transcript) @ r1) @ outline) @ r2"
    using ensure_newline_suffix by blast
  obtain r3 where r3: "ensure_newline (((((?a @ Summary_section settings transcript) @ r1) @ outline) @ r2) @
        Keywords_section settings transcript) =
      (((((?a @ Summary_section settings transcript) @ r1) @ outline) @ r2) @
        Keywords_section settings transcript) @ r3"
    using ensure_newline_suffix by blast
  have "out = ((((((?a @ Summary_section settings transcript) @ r1) @ outline) @ r2) @
        Keywords_section settings transcript) @ r3) @ link settings transcript"
    using out unfolding formatSwiftinkResults_sections b o by (simp only: sum.case r1 r2 r3 sum.inject)
  then have "out = ?a @ ''## Summary'' @ [CHR 0x0A] @ s @
      (r1 @ outline @ r2 @ Keywords_section settings transcript @ r3 @ link settings transcript)"
    unfolding S by simp
  with b show ?thesis by blast
qed

text \<open>
  C7: the Summary section is part of the result exactly when the summary flag is set, the
  transcript has a summary that is not empty, and the summary is not the sentinel
  \<open>Insufficient information for a summary.\<close>; without it the result is the one of the
  same transcript with no summary, and with it the section follows the Transcript section.
\<close>

theorem C7_summary_section:
  "(Summary_section settings transcript \<noteq> [] \<longleftrightarrow>
      embedSummary settings \<and>
      (\<exists>s. t_summary transcript = Some s \<and> s \<noteq> [] \<and> s \<noteq> insufficient)) \<and>
   (Summary_section settings transcript = [] \<longrightarrow>
      formatSwiftinkResults h settings transcript =
      formatSwiftinkResults h settings (transcript\<lparr>t_summary := None\<rparr>)) \<and>
   (t_summary transcript = Some insufficient \<longrightarrow>
      formatSwiftinkResults h settings transcript =
      formatSwiftinkResults h settings (transcript\<lparr>t_summary := None\<rparr>)) \<and>
   (embedSummary settings \<and> t_summary transcript = Some s \<and> s \<noteq> [] \<and> s \<noteq> insufficient \<and>
    formatSwiftinkResults h settings transcript = Inr out \<longrightarrow>
      (\<exists>body rest. Transcript_body h settings transcript = Inr body \<and>
         out = ensure_newline (''## Transcript'' @ [CHR 0x0A] @ body) @
               ''## Summary'' @ [CHR 0x0A] @ s @ rest))"
proof (intro conjI impI)
  show "Summary_section settings transcript \<noteq> [] \<longleftrightarrow>
      embedSummary settings \<and>
      (\<exists>s. t_summary transcript = Some s \<and> s \<noteq> [] \<and> s \<noteq> insufficient)"
    by (rule Summary_section_empty_iff)
next
  assume "Summary_section settings transcript = []"
  then show "formatSwiftinkResults h settings transcript =
      formatSwiftinkResults h settings (transcript\<lparr>t_summary := None\<rparr>)"
    by (rule format_without_summary)
next
  assume "t_summary transcript = Some insufficient"
  then have "Summary_section settings transcript = []"
    by (simp add: Summary_section_def Summary_included_def)
  then show "formatSwiftinkResults h settings transcript =
      formatSwiftinkResults h settings (transcript\<lparr>t_summary := None\<rparr>)"
    by (rule format_without_summary)
next
  assume "embedSummary settings \<and> t_summary transcript = Some s \<and> s \<noteq> [] \<and> s \<noteq> insufficient \<and>
    formatSwiftinkResults h settings transcript = Inr out"
  then show "\<exists>body rest. Transcript_body h settings transcript = Inr body \<and>
         out = ensure_newline (''## Transcript'' @ [CHR 0x0A] @ body) @
               ''## Summary'' @ [CHR 0x0A] @ s @ rest"
    using format_with_summary by blast
qed

theorem C7_summary_section_witness:
  "formatSwiftinkResults \<lparr>timezoneOffset = 0, other_pattern = (\<lambda>p t. Inl RangeError)\<rparr>
     \<lparr>timestamps = False, timestampFormat = ''auto'', embedSummary = True, embedOutline = False,
      embedKeywords = False, embedAdditionalFunctionality = False\<rparr>
     \<lparr>t_id = ''7'', t_name = ''memo.mp3'', t_status = Some ''complete'', t_text = Some ''hi'',
      t_text_segments = [], t_summary = Some ''Insufficient information for a summary.'',
      t_heading_segments = [], t_keywords = []\<rparr> =
   Inr ''## Transcript\<newline>hi\<newline>''"
proof -
  have "formatSwiftinkResults \<lparr>timezoneOffset = 0, other_pattern = (\<lambda>p t. Inl RangeError)\<rparr>
     \<lparr>timestamps = False, timestampFormat = ''auto'', embedSummary = True, embedOutline = False,
      embedKeywords = False, embedAdditionalFunctionality = False\<rparr>
     \<lparr>t_id = ''7'', t_name = ''memo.mp3'', t_status = Some ''complete'', t_text = Some ''hi'',
      t_text_segments = [], t_summary = None,
      t_heading_segments = [], t_keywords = []\<rparr> =
   Inr ''## Transcript\<newline>hi\<newline>''"
    by code_simp
  then show ?thesis
    using C7_summary_section [of
     "\<lparr>timestamps = False, timestampFormat = ''auto'', embedSummary = True, embedOutline = False,
      embedKeywords = False, embedAdditionalFunctionality = False\<rparr>"
     "\<lparr>t_id = ''7'', t_name = ''memo.mp3'', t_status = Some ''complete'', t_text = Some ''hi'',
      t_text_segments = [], t_summary = Some ''Insufficient information for a summary.'',
      t_heading_segments = [], t_keywords = []\<rparr>"
     "\<lparr>timezoneOffset = 0, other_pattern = (\<lambda>p t. Inl RangeError)\<rparr>",
     THEN conjunct2, THEN conjunct2, THEN conjunct1]
    by (simp add: insufficient_def)
qed

lemma format_sections_in_order:
  assumes out: "formatSwiftinkResults h settings transcript = Inr out"
  shows "\<exists>body outline text1 text2 text3 text4.
      Transcript_body h settings transcript = Inr body \<and>
      Outline_section h settings transcript = Inr outline \<and>
      text1 = ensure_newline (''## Transcript'' @ [CHR 0x0A] @ body) \<and>
      text2 = ensure_newline (text1 @ Summary_section settings transcript) \<and>
      text3 = ensure_newline (text2 @ outline) \<and>
      text4 = ensure_newline (text3 @ Keywords_section settings transcript) \<and>
      out = text4 @ link settings transcript \<and>
      ends_in_newline text1 \<and> ends_in_newline text2 \<and> ends_in_newline text3 \<and>
      ends_in_newline text4 \<and>
      prefix text1 text2 \<and> prefix text2 text3 \<and> prefix text3 text4 \<and> prefix text4 out"
proof -
  from out obtain body outline where
    b: "Transcript_body h settings transcript = Inr body" and
    o: "Outline_section h settings transcript = Inr outline"
    by (auto simp: formatSwiftinkResults_sections split: sum.splits)
  define text1 where "text1 = ensure_newline (''## Transcript'' @ [CHR 0x0A] @ body)"
  define text2 where "text2 = ensure_newline (text1 @ Summary_section settings transcript)"
  define text3 where "text3 = ensure_newline (text2 @ outline)"
  define text4 where "text4 = ensure_newline (text3 @ Keywords_section settings transcript)"
  have e: "out = text4 @ link settings transcript"
    using out unfolding formatSwiftinkResults_sections b o text1_def text2_def text3_def text4_def
    by simp
  have n: "ends_in_newline text1" "ends_in_newline text2" "ends_in_newline text3"
    "ends_in_newline text4"
    unfolding text1_def text2_def text3_def text4_def by (rule ensure_newline_ends)+
  have p: "prefix text1 text2" "prefix text2 text3" "prefix text3 text4" "prefix text4 out"
    unfolding text2_def text3_def text4_def e by (simp_all add: prefix_ensure_newline)
  from b o text1_def text2_def text3_def text4_def e n p show ?thesis by blast
qed

text \<open>
  C8, as stated: after each section the text ends in exactly one line break. It fails when
  a section's own text ends in several: nothing is removed. With every flag off and the
  text \<open>hi\<close> followed by two line breaks, the result ends in two line breaks.
\<close>

theorem C8_newline_counterexample:
  "formatSwiftinkResults \<lparr>timezoneOffset = 0, other_pattern = (\<lambda>p t. Inl RangeError)\<rparr>
     \<lparr>timestamps = False, timestampFormat = ''auto'', embedSummary = False, embedOutline = False,
      embedKeywords = False, embedAdditionalFunctionality = False\<rparr>
     \<lparr>t_id = ''7'', t_name = ''memo.mp3'', t_status = Some ''complete'',
      t_text = Some ''hi\<newline>\<newline>'', t_text_segments = [], t_summary = None,
      t_heading_segments = [], t_keywords = []\<rparr> =
   Inr ''## Transcript\<newline>hi\<newline>\<newline>'' \<and>
   \<not> ends_in_one_newline ''## Transcript\<newline>hi\<newline>\<newline>''"
  by code_simp

text \<open>
  C8, amended: the result starts with the Transcript section (the rendered segments when
  timestamps are on, else the text field or nothing), the Summary, Outline and Keywords
  sections that are included follow in this order, and after each section the text ends
  in a line break: one is appended exactly when the text does not end in one, and then the
  text ends in exactly one. The link, when asked for, follows the last line break.
\<close>

theorem C8_sections_in_order:
  "(formatSwiftinkResults h settings transcript = Inr out \<longrightarrow>
      (\<exists>body outline text1 text2 text3 text4.
         Transcript_body h settings transcript = Inr body \<and>
         Outline_section h settings transcript = Inr outline \<and>
         text1 = ensure_newline (''## Transcript'' @ [CHR 0x0A] @ body) \<and>
         text2 = ensure_newline (text1 @ Summary_section settings transcript) \<and>
         text3 = ensure_newline (text2 @ outline) \<and>
         text4 = ensure_newline (text3 @ Keywords_section settings transcript) \<and>
         out = text4 @ link settings transcript \<and>
         ends_in_newline text1 \<and> ends_in_newline text2 \<and> ends_in_newline text3 \<and>
         ends_in_newline text4 \<and>
         prefix text1 text2 \<and> prefix text2 text3 \<and> prefix text3 text4 \<and> prefix text4 out)) \<and>
   (ends_in_newline t \<longrightarrow> ensure_newline t = t) \<and>
   (\<not> ends_in_newline t \<longrightarrow>
      ensure_newline t = t @ [CHR 0x0A] \<and> ends_in_one_newline (ensure_newline t))"
proof (intro conjI impI)
  assume "formatSwiftinkResults h settings transcript = Inr out"
  then show "\<exists>body outline text1 text2 text3 text4.
         Transcript_body h settings transcript = Inr body \<and>
         Outline_section h settings transcript = Inr outline \<and>
         text1 = ensure_newline (''## Transcript'' @ [CHR 0x0A] @ body) \<and>
         text2 = ensure_newline (text1 @ Summary_section settings transcript) \<and>
         text3 = ensure_newline (text2 @ outline) \<and>
         text4 = ensure_newline (text3 @ Keywords_section settings transcript) \<and>
         out = text4 @ link settings transcript \<and>
         ends_in_newline text1 \<and> ends_in_newline text2 \<and> ends_in_newline text3 \<and>
         ends_in_newline text4 \<and>
         prefix text1 text2 \<and> prefix text2 text3 \<and> prefix text3 text4 \<and> prefix text4 out"
    by (rule format_sections_in_order)
next
  assume "ends_in_newline t"
  then show "ensure_newline t = t" by (rule ensure_newline_id)
next
  assume "\<not> ends_in_newline t"
  then show "ensure_newline t = t @ [CHR 0x0A]" by (rule ensure_newline_append)
next
  assume "\<not> ends_in_newline t"
  then show "ends_in_one_newline (ensure_newline t)" by (rule ensure_newline_one)
qed

theorem C8_sections_in_order_witness:
  "\<exists>body outline text1 text2 text3 text4.
     Transcript_body \<lparr>timezoneOffset = - 180, other_pattern = (\<lambda>p t. Inl RangeError)\<rparr>
       \<lparr>timestamps = True, timestampFormat = ''auto'', embedSummary = True, embedOutline = True,
        embedKeywords = True, embedAdditionalFunctionality = True\<rparr>
       \<lparr>t_id = ''42'', t_name = ''memo.mp3'', t_status = Some ''complete'', t_text = Some ''hi'',
        t_text_segments = [\<lparr>seg_start = 0, seg_end = 65, seg_text = ''a''\<rparr>],
        t_summary = Some ''sum'',
        t_heading_segments = [\<lparr>seg_start = 0, seg_end = 65, seg_text = ''head''\<rparr>],
        t_keywords = [''k1'', ''k2'']\<rparr> = Inr body \<and>
     Outline_section \<lparr>timezoneOffset = - 180, other_pattern = (\<lambda>p t. Inl RangeError)\<rparr>
       \<lparr>timestamps = True, timestampFormat = ''auto'', embedSummary = True, embedOutline = True,
        embedKeywords = True, embedAdditionalFunctionality = True\<rparr>
       \<lparr>t_id = ''42'', t_name = ''memo.mp3'', t_status = Some ''complete'', t_text = Some ''hi'',
        t_text_segments = [\<lparr>seg_start = 0, seg_end = 65, seg_text = ''a''\<rparr>],
        t_summary = Some ''sum'',
        t_heading_segments = [\<lparr>seg_start = 0, seg_end = 65, seg_text = ''head''\<rparr>],
        t_keywords = [''k1'', ''k2'']\<rparr> = Inr outline \<and>
     text1 = ensure_newline (''## Transcript'' @ [CHR 0x0A] @ body) \<and>
     prefix text1 text2 \<and> prefix text2 text3 \<and> prefix text3 text4 \<and>
     prefix text4 (''## Transcript\<newline>00:00 - 01:05: a\<newline>## Summary\<newline>sum\<newline>'' @
       ''## Outline\<newline>00:00 - 01:05: head\<newline>## Keywords\<newline>k1, k2\<newline>'' @
       ''[...](obsidian://swiftink_transcript_functions?id=42)'')"
proof -
  have "formatSwiftinkResults \<lparr>timezoneOffset = - 180, other_pattern = (\<lambda>p t. Inl RangeError)\<rparr>
       \<lparr>timestamps = True, timestampFormat = ''auto'', embedSummary = True, embedOutline = True,
        embedKeywords = True, embedAdditionalFunctionality = True\<rparr>
       \<lparr>t_id = ''42'', t_name = ''memo.mp3'', t_status = Some ''complete'', t_text = Some ''hi'',
        t_text_segments = [\<lparr>seg_start = 0, seg_end = 65, seg_text = ''a''\<rparr>],
        t_summary = Some ''sum'',
        t_heading_segments = [\<lparr>seg_start = 0, seg_end = 65, seg_text = ''head''\<rparr>],
        t_keywords = [''k1'', ''k2'']\<rparr> =
     Inr (''## Transcript\<newline>00:00 - 01:05: a\<newline>## Summary\<newline>sum\<newline>'' @
       ''## Outline\<newline>00:00 - 01:05: head\<newline>## Keywords\<newline>k1, k2\<newline>'' @
       ''[...](obsidian://swiftink_transcript_functions?id=42)'')"
    by code_simp
  from C8_sections_in_order [THEN conjunct1, rule_format, OF this]
  show ?thesis by blast
qed

section \<open>Polling and settlement\<close>

lemma poll_callback_non_terminal:
  assumes "non_terminal settings r" and "polling st"
  shows "poll_callback h settings st r =
     (if tries st > MAX_TRIES
      then st\<lparr>polling := False,
              outcome := settle (outcome st)
                (Rejected (Message ''Swiftink took too long to transcribe the file'')),
              tries := tries st + 1\<rparr>
      else st\<lparr>tries := tries st + 1\<rparr>)"
  using assms
  by (auto simp: poll_callback_def non_terminal_def split: poll_response.splits option.splits)

lemma poll_callback_stopped: "\<not> polling st \<Longrightarrow> poll_callback h settings st r = st"
  by (simp add: poll_callback_def)

lemma foldl_poll_callback_stopped:
  "\<not> polling st \<Longrightarrow> foldl (poll_callback h settings) st rs = st"
  by (induction rs) (simp_all add: poll_callback_stopped)

lemma foldl_non_terminal:
  assumes "\<forall>r\<in>set rs. non_terminal settings r" and "n \<le> 101"
  shows "foldl (poll_callback h settings) \<lparr>tries = n, polling = True, outcome = Pending\<rparr> rs =
     (if n + length rs \<le> 101
      then \<lparr>tries = n + length rs, polling = True, outcome = Pending\<rparr>
      else \<lparr>tries = 102, polling = False,
             outcome = Rejected (Message ''Swiftink took too long to transcribe the file'')\<rparr>)"
  using assms
proof (induction rs arbitrary: n)
  case Nil
  then show ?case by simp
next
  case (Cons r rs)
  then have nt: "non_terminal settings r" by simp
  show ?case
  proof (cases "n = 101")
    case True
    have "poll_callback h settings \<lparr>tries = n, polling = True, outcome = Pending\<rparr> r =
        \<lparr>tries = 102, polling = False,
             outcome = Rejected (Message ''Swiftink took too long to transcribe the file'')\<rparr>"
      using True by (simp add: poll_callback_non_terminal [OF nt] MAX_TRIES_def settle_def)
    with True show ?thesis by (simp add: foldl_poll_callback_stopped)
  next
    case False
    with Cons.prems have n: "n \<le> 100" by simp
    have "poll_callback h settings \<lparr>tries = n, polling = True, outcome = Pending\<rparr> r =
        \<lparr>tries = Suc n, polling = True, outcome = Pending\<rparr>"
      using n by (simp add: poll_callback_non_terminal [OF nt] MAX_TRIES_def)
    moreover have "foldl (poll_callback h settings)
        \<lparr>tries = Suc n, polling = True, outcome = Pending\<rparr> rs =
     (if Suc n + length rs \<le> 101
      then \<lparr>tries = Suc n + length rs, polling = True, outcome = Pending\<rparr>
      else \<lparr>tries = 102, polling = False,
             outcome = Rejected (Message ''Swiftink took too long to transcribe the file'')\<rparr>)"
      using Cons.prems n by (intro Cons.IH) simp_all
    ultimately show ?thesis by simp
  qed
qed

lemma poll_loop_non_terminal:
  assumes "\<forall>r\<in>set rs. non_terminal settings r"
  shows "poll_loop h settings rs =
     (if length rs \<le> 101
      then \<lparr>tries = length rs, polling = True, outcome = Pending\<rparr>
      else \<lparr>tries = 102, polling = False,
             outcome = Rejected (Message ''Swiftink took too long to transcribe the file'')\<rparr>)"
  using foldl_non_terminal [OF assms, of 0 h] by (simp add: poll_loop_def)

lemma poll_callback_completed:
  assumes "t_status t = Some status" "status \<in> set (completed_statuses settings)"
    and "formatSwiftinkResults h settings t = Inr formatted" and "polling st"
  shows "poll_callback h settings st (Transcript t) =
     st\<lparr>polling := False, outcome := settle (outcome st) (Resolved formatted),
        tries := tries st + 1\<rparr>"
proof -
  from assms(2) have "status \<noteq> []" by (auto simp: completed_statuses_def split: if_splits)
  with assms show ?thesis by (simp add: poll_callback_def)
qed

text \<open>
  C1: the poll loop of Backend B at the cap. The code rejects with \<open>took too long\<close>
  when \<open>tries > MAX_TRIES\<close>, and \<open>tries\<close> counts the polls before the current one: after
  up to 101 polls that end nothing the promise is still pending and the timer set, and the
  rejection comes with poll 102, not 101. A poll with status \<open>complete\<close> after at most
  101 such polls (99 among them) resolves with the formatted result.
\<close>

theorem C1_timeout_on_poll_102:
  assumes "\<forall>r\<in>set rs. non_terminal settings r"
  shows "(length rs \<le> 101 \<longrightarrow>
            poll_loop h settings rs = \<lparr>tries = length rs, polling = True, outcome = Pending\<rparr>) \<and>
         (length rs > 101 \<longrightarrow>
            poll_loop h settings rs =
              \<lparr>tries = 102, polling = False,
               outcome = Rejected (Message ''Swiftink took too long to transcribe the file'')\<rparr>) \<and>
         (length rs \<le> 101 \<and> t_status t = Some ''complete'' \<and>
          formatSwiftinkResults h settings t = Inr text \<longrightarrow>
            poll_loop h settings (rs @ [Transcript t]) =
              \<lparr>tries = length rs + 1, polling = False, outcome = Resolved text\<rparr>)"
proof (intro conjI impI)
  assume "length rs \<le> 101"
  then show "poll_loop h settings rs = \<lparr>tries = length rs, polling = True, outcome = Pending\<rparr>"
    by (simp add: poll_loop_non_terminal [OF assms])
next
  assume "length rs > 101"
  then show "poll_loop h settings rs =
              \<lparr>tries = 102, polling = False,
               outcome = Rejected (Message ''Swiftink took too long to transcribe the file'')\<rparr>"
    by (simp add: poll_loop_non_terminal [OF assms])
next
  assume a: "length rs \<le> 101 \<and> t_status t = Some ''complete'' \<and>
          formatSwiftinkResults h settings t = Inr text"
  then have "poll_loop h settings rs = \<lparr>tries = length rs, polling = True, outcome = Pending\<rparr>"
    by (simp add: poll_loop_non_terminal [OF assms])
  then have "poll_loop h settings (rs @ [Transcript t]) =
      poll_callback h settings \<lparr>tries = length rs, polling = True, outcome = Pending\<rparr>
        (Transcript t)"
    by (simp add: poll_loop_def)
  also have "\<dots> = \<lparr>tries = length rs + 1, polling = False, outcome = Resolved text\<rparr>"
    using a by (subst poll_callback_completed [where status = "''complete''" and formatted = "text"])
      (simp_all add: completed_statuses_def settle_def)
  finally show "poll_loop h settings (rs @ [Transcript t]) =
              \<lparr>tries = length rs + 1, polling = False, outcome = Resolved text\<rparr>" .
qed

theorem C1_timeout_on_poll_102_witness:
  "poll_loop \<lparr>timezoneOffset = 0, other_pattern = (\<lambda>p t. Inl RangeError)\<rparr>
     \<lparr>timestamps = False, timestampFormat = ''auto'', embedSummary = False, embedOutline = False,
      embedKeywords = False, embedAdditionalFunctionality = False\<rparr>
     (replicate 101 (Transcript
       \<lparr>t_id = ''7'', t_name = ''memo.mp3'', t_status = Some ''processing'', t_text = None,
        t_text_segments = [], t_summary = None, t_heading_segments = [], t_keywords = []\<rparr>)) =
   \<lparr>tries = 101, polling = True, outcome = Pending\<rparr> \<and>
   poll_loop \<lparr>timezoneOffset = 0, other_pattern = (\<lambda>p t. Inl RangeError)\<rparr>
     \<lparr>timestamps = False, timestampFormat = ''auto'', embedSummary = False, embedOutline = False,
      embedKeywords = False, embedAdditionalFunctionality = False\<rparr>
     (replicate 102 (Transcript
       \<lparr>t_id = ''7'', t_name = ''memo.mp3'', t_status = Some ''processing'', t_text = None,
        t_text_segments = [], t_summary = None, t_heading_segments = [], t_keywords = []\<rparr>)) =
   \<lparr>tries = 102, polling = False,
    outcome = Rejected (Message ''Swiftink took too long to transcribe the file'')\<rparr>"
  using C1_timeout_on_poll_102 [of
      "replicate 101 (Transcript
       \<lparr>t_id = ''7'', t_name = ''memo.mp3'', t_status = Some ''processing'', t_text = None,
        t_text_segments = [], t_summary = None, t_heading_segments = [], t_keywords = []\<rparr>)"
      "\<lparr>timestamps = False, timestampFormat = ''auto'', embedSummary = False, embedOutline = False,
      embedKeywords = False, embedAdditionalFunctionality = False\<rparr>"
      "\<lparr>timezoneOffset = 0, other_pattern = (\<lambda>p t. Inl RangeError)\<rparr>"]
    C1_timeout_on_poll_102 [of
      "replicate 102 (Transcript
       \<lparr>t_id = ''7'', t_name = ''memo.mp3'', t_status = Some ''processing'', t_text = None,
        t_text_segments = [], t_summary = None, t_heading_segments = [], t_keywords = []\<rparr>)"
      "\<lparr>timestamps = False, timestampFormat = ''auto'', embedSummary = False, embedOutline = False,
      embedKeywords = False, embedAdditionalFunctionality = False\<rparr>"
      "\<lparr>timezoneOffset = 0, other_pattern = (\<lambda>p t. Inl RangeError)\<rparr>"]
  by (simp add: non_terminal_def completed_statuses_def)





text \<open>
  C3: the code on two failures. On the \<open>error\<close> event of Backend A's create request the
  handler only logs: the promise stays pending, no timer is set and no query is sent,
  whatever comes later. When Backend B's upload fails after its retries, the upload
  promise is never settled, so the promise returned stays pending too.
\<close>

theorem C3_failures_left_unsettled:
  "getTranscriptionWhisperASR (RequestError e) query_events =
     \<lparr>w_promise = Pending, w_interval = False, w_queries = []\<rparr> \<and>
   getTranscriptionSwiftink h settings file_name
     \<lparr>session = Some s, upload = UploadFails, create = c, polls = responses\<rparr> = Pending"
  by (simp add: getTranscriptionWhisperASR_def getTranscriptionSwiftink_def split: prod.splits)

text \<open>
  C9: in Backend A a create response with code 10000 sets the query timer, the promise
  pending, and the first firing queries the task of the response; with any other code
  the promise is rejected with the message of the response, no timer is set and no query
  is ever sent.
\<close>

theorem C9_create_response:
  "(c_code responseJSON = 10000 \<longrightarrow>
      getTranscriptionWhisperASR (ResponseEnd (Some responseJSON)) [] =
        \<lparr>w_promise = Pending, w_interval = True, w_queries = []\<rparr> \<and>
      w_queries (getTranscriptionWhisperASR (ResponseEnd (Some responseJSON)) [event]) =
        [query_path (c_taskId responseJSON)]) \<and>
   (c_code responseJSON \<noteq> 10000 \<longrightarrow>
      getTranscriptionWhisperASR (ResponseEnd (Some responseJSON)) query_events =
        \<lparr>w_promise = Rejected (Message (c_msg responseJSON)), w_interval = False,
         w_queries = []\<rparr>)"
  by (auto simp: getTranscriptionWhisperASR_def query_tick_def settle_def Let_def
      split: response_event.splits option.splits)

theorem C9_create_response_witness:
  "getTranscriptionWhisperASR
     (ResponseEnd (Some \<lparr>c_code = 10000, c_taskId = Some ''t1'', c_msg = ''''\<rparr>))
     [ResponseEnd (Some \<lparr>q_code = 11001, q_msg = '''', q_result = None\<rparr>)] =
     \<lparr>w_promise = Pending, w_interval = True,
      w_queries = [''/asr/file/v1/query?taskId=t1&resultType=1'']\<rparr> \<and>
   getTranscriptionWhisperASR
     (ResponseEnd (Some \<lparr>c_code = 10001, c_taskId = None, c_msg = ''bad key''\<rparr>))
     [ResponseEnd (Some \<lparr>q_code = 11000, q_msg = '''', q_result = Some [''a'']\<rparr>)] =
     \<lparr>w_promise = Rejected (Message ''bad key''), w_interval = False, w_queries = []\<rparr>"
proof -
  have a: "getTranscriptionWhisperASR
     (ResponseEnd (Some \<lparr>c_code = 10000, c_taskId = Some ''t1'', c_msg = ''''\<rparr>))
     [ResponseEnd (Some \<lparr>q_code = 11001, q_msg = '''', q_result = None\<rparr>)] =
     \<lparr>w_promise = Pending, w_interval = True,
      w_queries = [''/asr/file/v1/query?taskId=t1&resultType=1'']\<rparr>"
    using C9_create_response [of "\<lparr>c_code = 10000, c_taskId = Some ''t1'', c_msg = ''''\<rparr>"
        "ResponseEnd (Some \<lparr>q_code = 11001, q_msg = '''', q_result = None\<rparr>)"]
    by (simp add: getTranscriptionWhisperASR_def query_tick_def query_path_def)
  have b: "getTranscriptionWhisperASR
     (ResponseEnd (Some \<lparr>c_code = 10001, c_taskId = None, c_msg = ''bad key''\<rparr>))
     [ResponseEnd (Some \<lparr>q_code = 11000, q_msg = '''', q_result = Some [''a'']\<rparr>)] =
     \<lparr>w_promise = Rejected (Message ''bad key''), w_interval = False, w_queries = []\<rparr>"
    using C9_create_response [of "\<lparr>c_code = 10001, c_taskId = None, c_msg = ''bad key''\<rparr>"]
    by simp
  from a b show ?thesis by simp
qed

end
